theory Spec2Isabelle
  imports Complex_Main "HOL-Library.Char_ord" "HOL-Library.List_Lexorder"
    "HOL-Library.Product_Lexorder"
begin

section \<open>World economic dashboard: data pipeline of \<^verbatim>\<open>main.py\<close>\<close>

text \<open>
  The development follows \<^verbatim>\<open>src/main.py\<close>. Python numbers (the \<^verbatim>\<open>int\<close> made of an
  entry's date, the \<^verbatim>\<open>float\<close> made of its value) are idealised as reals: no rounding is
  modelled. Strings are byte lists, compared lexicographically as Python compares code points.
  HTTP, JSON decoding, pandas and plotly are libraries outside the repository: what they hand
  to the program is an input of the model, and what the program asks of them (a stable
  multi-column sort, a pivot table of means, \<^verbatim>\<open>fillna\<close>, \<^verbatim>\<open>dropna\<close>) is written out as a
  function. A JSON boolean is the number it equals in Python (1 or 0).
\<close>

subsection \<open>Records of a dataset\<close>

text \<open>
  One dictionary appended to \<^verbatim>\<open>all_data\<close>, one line of a data frame. The country name
  is whatever the source gave (\<open>'n\<close>): a text in an uploaded table, any JSON value in a
  fetched one.
\<close>

record 'n row =
  country_code :: string
  country_name :: 'n
  indicator :: string
  year :: real
  val :: real

text \<open>A frame whose country names are texts.\<close>

type_synonym dataset = "string row list"

text \<open>
  A country name that can be a cell of a sorted frame: a text, a number, or JSON null.
  pandas orders a column that mixes them with the numbers first, then the texts, then the
  missing values.
\<close>

datatype name = Name string | Num_name real | Null_name

fun name_rank :: "name \<Rightarrow> nat \<times> real \<times> string" where
  "name_rank (Num_name x) = (0, x, [])"
| "name_rank (Name s) = (1, 0, s)"
| "name_rank Null_name = (2, 0, [])"

instantiation name :: linorder
begin

definition less_eq_name :: "name \<Rightarrow> name \<Rightarrow> bool" where
  "less_eq_name a b = (name_rank a \<le> name_rank b)"

definition less_name :: "name \<Rightarrow> name \<Rightarrow> bool" where
  "less_name a b = (name_rank a < name_rank b)"

instance
proof
  fix x y z :: name
  show "(x < y) = (x \<le> y \<and> \<not> y \<le> x)"
    by (auto simp: less_eq_name_def less_name_def)
  show "x \<le> x"
    by (simp add: less_eq_name_def)
  show "x \<le> y \<Longrightarrow> y \<le> z \<Longrightarrow> x \<le> z"
    unfolding less_eq_name_def by (rule order_trans)
  show "x \<le> y \<Longrightarrow> y \<le> x \<Longrightarrow> x = y"
    by (cases x; cases y) (auto simp: less_eq_name_def)
  show "x \<le> y \<or> y \<le> x"
    unfolding less_eq_name_def by (rule linear)
qed

end

text \<open>The frame \<^verbatim>\<open>fetch_country_data\<close> returns.\<close>

type_synonym frame = "name row list"

text \<open>
  The value of \<^verbatim>\<open>entry['country']['value']\<close>: one of the above, or a JSON array or
  object, which Python cannot hash.
\<close>

datatype json_name = Hashable name | Unhashable

subsection \<open>The indicator catalog of \<^verbatim>\<open>config.py\<close>\<close>

definition ECONOMIC_INDICATORS :: "(string \<times> string) list" where
  "ECONOMIC_INDICATORS = [
  (''GDP (Current US$)'', ''NY.GDP.MKTP.CD''),
  (''GDP Growth (Annual %)'', ''NY.GDP.MKTP.KD.ZG''),
  (''GDP Per Capita'', ''NY.GDP.PCAP.CD''),
  (''GDP Per Capita Growth'', ''NY.GDP.PCAP.KD.ZG''),
  (''GNI Per Capita'', ''NY.GNP.PCAP.CD''),
  (''GNI Atlas Method'', ''NY.GNP.PCAP.CD''),
  (''GDP Deflator'', ''NY.GDP.DEFL.ZS''),
  (''Gross Capital Formation'', ''NE.GDI.TOTL.ZS''),
  (''Final Consumption Expenditure'', ''NE.CON.TOTL.ZS''),
  (''Inflation Rate (Consumer Prices)'', ''FP.CPI.TOTL.ZG''),
  (''Food Inflation'', ''FP.CPI.FOOD.ZG''),
  (''Core Inflation'', ''FP.CPI.TOTL.ZG''),
  (''Money Supply Growth'', ''FM.LBL.BMNY.ZG''),
  (''Interest Rate'', ''FR.INR.RINR''),
  (''Real Interest Rate'', ''FR.INR.RINR''),
  (''Exchange Rate'', ''PA.NUS.FCRF''),
  (''Official Exchange Rate'', ''PA.NUS.FCRF''),
  (''Unemployment Rate'', ''SL.UEM.TOTL.ZS''),
  (''Youth Unemployment'', ''SL.UEM.1524.ZS''),
  (''Female Unemployment'', ''SL.UEM.TOTL.FE.ZS''),
  (''Male Unemployment'', ''SL.UEM.TOTL.MA.ZS''),
  (''Labor Force Participation'', ''SL.TLF.CACT.ZS''),
  (''Employment in Services (%)'', ''SL.SRV.EMPL.ZS''),
  (''Employment in Industry (%)'', ''SL.IND.EMPL.ZS''),
  (''Employment in Agriculture (%)'', ''SL.AGR.EMPL.ZS''),
  (''Labor Productivity'', ''SL.GDP.PCAP.EM.KD''),
  (''Population'', ''SP.POP.TOTL''),
  (''Population Growth'', ''SP.POP.GROW''),
  (''Urban Population (%)'', ''SP.URB.TOTL.IN.ZS''),
  (''Rural Population (%)'', ''SP.RUR.TOTL.ZS''),
  (''Population Density'', ''EN.POP.DNST''),
  (''Life Expectancy'', ''SP.DYN.LE00.IN''),
  (''Female Life Expectancy'', ''SP.DYN.LE00.FE.IN''),
  (''Male Life Expectancy'', ''SP.DYN.LE00.MA.IN''),
  (''Fertility Rate'', ''SP.DYN.TFRT.IN''),
  (''Birth Rate'', ''SP.DYN.CBRT.IN''),
  (''Death Rate'', ''SP.DYN.CDRT.IN''),
  (''Infant Mortality Rate'', ''SP.DYN.IMRT.IN''),
  (''Child Mortality Rate (Under 5)'', ''SH.DYN.MORT''),
  (''Age Dependency Ratio'', ''SP.POP.DPND''),
  (''Exports of Goods and Services'', ''NE.EXP.GNFS.CD''),
  (''Imports of Goods and Services'', ''NE.IMP.GNFS.CD''),
  (''Trade Balance'', ''NE.RSB.GNFS.CD''),
  (''Trade (% of GDP)'', ''NE.TRD.GNFS.ZS''),
  (''Current Account Balance'', ''BN.CAB.XOKA.CD''),
  (''Current Account Balance (% GDP)'', ''BN.CAB.XOKA.GD.ZS''),
  (''Merchandise Trade (% GDP)'', ''TG.VAL.TOTL.GD.ZS''),
  (''Services Trade (% GDP)'', ''BG.GSR.NFSV.GD.ZS''),
  (''Export Value Index'', ''TX.QTY.MRCH.XD.WD''),
  (''Import Value Index'', ''TM.QTY.MRCH.XD.WD''),
  (''Terms of Trade'', ''TT.PRI.MRCH.XD.WD''),
  (''Foreign Direct Investment'', ''BX.KLT.DINV.CD.WD''),
  (''FDI Inflows (% GDP)'', ''BX.KLT.DINV.WD.GD.ZS''),
  (''FDI Outflows'', ''BM.KLT.DINV.CD.WD''),
  (''Portfolio Investment'', ''BX.PEF.TOTL.CD.WD''),
  (''External Debt'', ''DT.DOD.DECT.CD''),
  (''Total Reserves'', ''FI.RES.TOTL.CD''),
  (''Reserves (Months of Imports)'', ''FI.RES.TOTL.MO''),
  (''Government Debt (% of GDP)'', ''GC.DOD.TOTL.GD.ZS''),
  (''Government Expenditure (% of GDP)'', ''GC.XPN.TOTL.GD.ZS''),
  (''Government Revenue (% GDP)'', ''GC.REV.TOTL.GD.ZS''),
  (''Tax Revenue (% of GDP)'', ''GC.TAX.TOTL.GD.ZS''),
  (''Budget Balance (% GDP)'', ''GC.BAL.TOTL.GD.ZS''),
  (''Military Expenditure (% of GDP)'', ''MS.MIL.XPND.GD.ZS''),
  (''Public Debt Service'', ''GC.DOD.TOTL.GD.ZS''),
  (''Internet Users (%)'', ''IT.NET.USER.ZS''),
  (''Mobile Subscriptions'', ''IT.CEL.SETS.P2''),
  (''Fixed Broadband Subscriptions'', ''IT.NET.BBND.P2''),
  (''Telephone Lines'', ''IT.MLT.MAIN.P2''),
  (''Electric Power Consumption'', ''EG.USE.ELEC.KH.PC''),
  (''Electricity Production'', ''EG.ELC.PROD.KH''),
  (''Energy Use Per Capita'', ''EG.USE.PCAP.KG.OE''),
  (''Railway Lines (km)'', ''IS.RRS.TOTL.KM''),
  (''Road Density'', ''IS.ROD.DNST.K2''),
  (''Air Transport Passengers'', ''IS.AIR.PSGR''),
  (''Container Port Traffic'', ''IS.SHP.GOOD.TU''),
  (''CO2 Emissions (kt)'', ''EN.ATM.CO2E.KT''),
  (''CO2 Emissions Per Capita'', ''EN.ATM.CO2E.PC''),
  (''Methane Emissions'', ''EN.ATM.METH.KT.CE''),
  (''Nitrous Oxide Emissions'', ''EN.ATM.NOXE.KT.CE''),
  (''Renewable Energy (%)'', ''EG.FEC.RNEW.ZS''),
  (''Fossil Fuel Consumption'', ''EG.USE.COMM.FO.ZS''),
  (''Forest Area (%)'', ''AG.LND.FRST.ZS''),
  (''Agricultural Land (%)'', ''AG.LND.AGRI.ZS''),
  (''Arable Land (%)'', ''AG.LND.ARBL.ZS''),
  (''Water Resources'', ''ER.H2O.INTR.PC''),
  (''PM2.5 Air Pollution'', ''EN.ATM.PM25.MC.M3''),
  (''Education Expenditure (% of GDP)'', ''SE.XPD.TOTL.GD.ZS''),
  (''Primary Education Completion'', ''SE.PRM.CMPT.ZS''),
  (''Secondary Education Enrollment'', ''SE.SEC.NENR''),
  (''Tertiary Education Enrollment'', ''SE.TER.ENRR''),
  (''Adult Literacy Rate'', ''SE.ADT.LITR.ZS''),
  (''Youth Literacy Rate'', ''SE.ADT.1524.LT.ZS''),
  (''Female Literacy Rate'', ''SE.ADT.LITR.FE.ZS''),
  (''School Life Expectancy'', ''SE.SCH.LIFE''),
  (''Primary School Enrollment'', ''SE.PRM.NENR''),
  (''Pupil-Teacher Ratio'', ''SE.PRM.ENRL.TC.ZS''),
  (''Health Expenditure (% of GDP)'', ''SH.XPD.CHEX.GD.ZS''),
  (''Health Expenditure Per Capita'', ''SH.XPD.CHEX.PC.CD''),
  (''Hospital Beds (per 1000)'', ''SH.MED.BEDS.ZS''),
  (''Physicians (per 1000)'', ''SH.MED.PHYS.ZS''),
  (''Nurses and Midwives (per 1000)'', ''SH.MED.NUMW.P3''),
  (''Immunization Rate (DPT)'', ''SH.IMM.IDPT''),
  (''Immunization Rate (Measles)'', ''SH.IMM.MEAS''),
  (''Maternal Mortality Rate'', ''SH.STA.MMRT''),
  (''Malnutrition Prevalence'', ''SH.STA.MALN.ZS''),
  (''HIV Prevalence'', ''SH.DYN.AIDS.ZS''),
  (''Tuberculosis Incidence'', ''SH.TBS.INCD''),
  (''Food Production Index'', ''AG.PRD.FOOD.XD''),
  (''Crop Production Index'', ''AG.PRD.CROP.XD''),
  (''Livestock Production Index'', ''AG.PRD.LVSK.XD''),
  (''Fertilizer Consumption'', ''AG.CON.FERT.ZS''),
  (''Cereal Yield'', ''AG.YLD.CREL.KG''),
  (''Agricultural Value Added'', ''NV.AGR.TOTL.ZS''),
  (''Rural Population'', ''SP.RUR.TOTL.ZS''),
  (''Permanent Cropland'', ''AG.LND.CROP.ZS''),
  (''R&D Expenditure (% of GDP)'', ''GB.XPD.RSDV.GD.ZS''),
  (''Researchers (per million)'', ''SP.POP.SCIE.RD.P6''),
  (''Patent Applications'', ''IP.PAT.RESD''),
  (''Trademark Applications'', ''IP.TMK.RESD''),
  (''High-tech Exports (%)'', ''TX.VAL.TECH.CD''),
  (''Scientific Publications'', ''IP.JRN.ARTC.SC''),
  (''Poverty Headcount ($1.90)'', ''SI.POV.DDAY''),
  (''Poverty Headcount ($3.20)'', ''SI.POV.LMIC''),
  (''Poverty Headcount ($5.50)'', ''SI.POV.UMIC''),
  (''GINI Index'', ''SI.POV.GINI''),
  (''Income Share - Bottom 10%'', ''SI.DST.FRST.10''),
  (''Income Share - Top 10%'', ''SI.DST.10TH.10''),
  (''Social Protection Coverage'', ''per_si_allsi.cov_pop_tot'')]"

definition ALL_INDICATORS :: "(string \<times> string) list" where
  "ALL_INDICATORS = ECONOMIC_INDICATORS"

subsection \<open>What the World Bank source answers\<close>

text \<open>
  \<^verbatim>\<open>entry['value']\<close> is JSON null, or something \<^verbatim>\<open>float\<close> accepts, or something
  that makes line 109 or line 115 raise (no such key, a value \<^verbatim>\<open>float\<close> rejects).
\<close>

datatype source_value = Null | Number real | Unusable

text \<open>
  One element of \<^verbatim>\<open>data[1]\<close>. \<open>entry_date\<close> is \<^verbatim>\<open>int(entry['date'])\<close> and
  \<open>entry_country\<close> is \<^verbatim>\<open>entry['country']['value']\<close>, each \<open>None\<close> when the
  expression raises (a missing key, a date \<^verbatim>\<open>int\<close> rejects). Line 112 takes the country
  value as it is, whatever its JSON type.
\<close>

record entry =
  entry_value :: source_value
  entry_date :: "int option"
  entry_country :: "json_name option"

text \<open>
  The answer to one request. \<open>Request_failed\<close>: \<^verbatim>\<open>requests.get\<close>,
  \<^verbatim>\<open>raise_for_status\<close>, \<^verbatim>\<open>response.json()\<close> or the test of line 107 raises.
  \<open>Body None\<close>: the decoded body has fewer than two elements or a falsy second one.
  \<open>Body (Some es)\<close>: the second element iterates as \<open>es\<close>.
\<close>

datatype response = Request_failed | Body "entry list option"

text \<open>The source, asked by country code, indicator code, start year and end year.\<close>

type_synonym source = "string \<Rightarrow> string \<Rightarrow> int \<Rightarrow> int \<Rightarrow> response"

datatype exn = RequestError | PayloadError | TypeError

datatype 'a outcome = Returns 'a | Raises exn

subsection \<open>\<^verbatim>\<open>fetch_country_data\<close>\<close>

text \<open>
  Lines 108 to 116: the loop over \<^verbatim>\<open>data[1]\<close>. The statement's effect is the new
  \<^verbatim>\<open>all_data\<close> and the exception that left it, if any; what was appended before an
  exception stays appended.
\<close>

fun append_entries :: "string \<Rightarrow> string \<Rightarrow> entry list \<Rightarrow> json_name row list
    \<Rightarrow> json_name row list \<times> exn option" where
  "append_entries cc ind [] all_data = (all_data, None)"
| "append_entries cc ind (e # es) all_data =
     (case entry_value e of
        Null \<Rightarrow> append_entries cc ind es all_data
      | Unusable \<Rightarrow> (all_data, Some PayloadError)
      | Number v \<Rightarrow>
          (case entry_country e of
             None \<Rightarrow> (all_data, Some PayloadError)
           | Some name \<Rightarrow>
               (case entry_date e of
                  None \<Rightarrow> (all_data, Some PayloadError)
                | Some y \<Rightarrow>
                    append_entries cc ind es
                      (all_data @ [\<lparr>country_code = cc, country_name = name, indicator = ind,
                                    year = of_int y, val = v\<rparr>]))))"

text \<open>Lines 103 to 118: the body of the \<^verbatim>\<open>try\<close>.\<close>

definition try_body :: "source \<Rightarrow> string \<Rightarrow> string \<Rightarrow> string \<Rightarrow> int \<Rightarrow> int
    \<Rightarrow> json_name row list \<Rightarrow> json_name row list \<times> exn option" where
  "try_body src cc ind code start_year end_year all_data =
     (case src cc code start_year end_year of
        Request_failed \<Rightarrow> (all_data, Some RequestError)
      | Body None \<Rightarrow> (all_data, None)
      | Body (Some es) \<Rightarrow> append_entries cc ind es all_data)"

text \<open>Lines 119 to 121: \<^verbatim>\<open>except Exception\<close> prints and continues.\<close>

definition except_continue :: "json_name row list \<times> exn option
    \<Rightarrow> json_name row list \<times> exn option" where
  "except_continue r =
     (case r of (all_data, Some e) \<Rightarrow> (all_data, None) | (all_data, None) \<Rightarrow> (all_data, None))"

text \<open>Lines 90 to 121: the inner loop. An exception that leaves an iteration ends the loop.\<close>

fun indicators_loop :: "source \<Rightarrow> string \<Rightarrow> int \<Rightarrow> int \<Rightarrow> string list
    \<Rightarrow> json_name row list \<Rightarrow> json_name row list \<times> exn option" where
  "indicators_loop src cc start_year end_year [] all_data = (all_data, None)"
| "indicators_loop src cc start_year end_year (indicator_name # rest) all_data =
     (case map_of ALL_INDICATORS indicator_name of
        None \<Rightarrow> indicators_loop src cc start_year end_year rest all_data
      | Some indicator_code \<Rightarrow>
          (case except_continue
                  (try_body src cc indicator_name indicator_code start_year end_year all_data) of
             (all_data', Some e) \<Rightarrow> (all_data', Some e)
           | (all_data', None) \<Rightarrow> indicators_loop src cc start_year end_year rest all_data'))"

text \<open>Lines 89 to 121: the outer loop.\<close>

fun countries_loop :: "source \<Rightarrow> int \<Rightarrow> int \<Rightarrow> string list \<Rightarrow> string list
    \<Rightarrow> json_name row list \<Rightarrow> json_name row list \<times> exn option" where
  "countries_loop src start_year end_year indicators [] all_data = (all_data, None)"
| "countries_loop src start_year end_year indicators (cc # rest) all_data =
     (case indicators_loop src cc start_year end_year indicators all_data of
        (all_data', Some e) \<Rightarrow> (all_data', Some e)
      | (all_data', None) \<Rightarrow> countries_loop src start_year end_year indicators rest all_data')"

text \<open>A row of the frame, when its country name can be hashed.\<close>

definition hashable_row :: "json_name row \<Rightarrow> name row option" where
  "hashable_row r =
     (case country_name r of
        Unhashable \<Rightarrow> None
      | Hashable n \<Rightarrow>
          Some \<lparr>country_code = country_code r, country_name = n, indicator = indicator r,
                 year = year r, val = val r\<rparr>)"

text \<open>
  Lines 124 and 125, outside the \<^verbatim>\<open>try\<close>: \<^verbatim>\<open>pd.DataFrame(all_data)\<close> takes every
  value as a cell, and \<^verbatim>\<open>df.sort_values(['country_name', 'indicator', 'year'])\<close> sorts
  the three columns with a stable lexicographic sort, after hashing their values: it raises
  \<^verbatim>\<open>TypeError\<close> on a country name that is an array or an object.
\<close>

definition sort_values :: "json_name row list \<Rightarrow> frame outcome" where
  "sort_values df =
     (case those (map hashable_row df) of
        None \<Rightarrow> Raises TypeError
      | Some rows \<Rightarrow> Returns (sort_key (\<lambda>r. (country_name r, indicator r, year r)) rows))"

text \<open>The first argument: a bare string or a list (line 81).\<close>

datatype codes_arg = Str string | Lst "string list"

definition fetch_country_data :: "source \<Rightarrow> codes_arg \<Rightarrow> int \<Rightarrow> int \<Rightarrow> string list option
    \<Rightarrow> frame outcome" where
  "fetch_country_data src country_codes start_year end_year indicators =
     (let country_codes' = (case country_codes of Str s \<Rightarrow> [s] | Lst l \<Rightarrow> l);
          indicators' = (case indicators of None \<Rightarrow> map fst ALL_INDICATORS | Some l \<Rightarrow> l)
      in case countries_loop src start_year end_year indicators' country_codes' [] of
           (all_data, Some e) \<Rightarrow> Raises e
         | (all_data, None) \<Rightarrow>
             (if all_data \<noteq> [] then sort_values all_data else Returns []))"

subsection \<open>What each pair contributes\<close>

text \<open>An entry the loop of lines 108 to 116 gets through without raising.\<close>

definition usable :: "entry \<Rightarrow> bool" where
  "usable e = (case entry_value e of
      Null \<Rightarrow> True
    | Unusable \<Rightarrow> False
    | Number v \<Rightarrow> entry_country e \<noteq> None \<and> entry_date e \<noteq> None)"

text \<open>The dictionary of lines 110 to 116, for an entry with a value.\<close>

definition record_of :: "string \<Rightarrow> string \<Rightarrow> entry \<Rightarrow> json_name row option" where
  "record_of cc ind e = (case entry_value e of
      Number v \<Rightarrow>
        (case entry_country e of
           Some name \<Rightarrow>
             (case entry_date e of
                Some y \<Rightarrow> Some \<lparr>country_code = cc, country_name = name, indicator = ind,
                                 year = of_int y, val = v\<rparr>
              | None \<Rightarrow> None)
         | None \<Rightarrow> None)
    | _ \<Rightarrow> None)"

text \<open>
  The observations the source returns for a country and an indicator label: none for a
  label outside the catalog (no request is made), none when the request fails.
\<close>

definition observations :: "source \<Rightarrow> string \<Rightarrow> int \<Rightarrow> int \<Rightarrow> string \<Rightarrow> entry list" where
  "observations src cc start_year end_year ind =
     (case map_of ALL_INDICATORS ind of
        None \<Rightarrow> []
      | Some code \<Rightarrow>
          (case src cc code start_year end_year of
             Request_failed \<Rightarrow> []
           | Body None \<Rightarrow> []
           | Body (Some es) \<Rightarrow> es))"

text \<open>The records of one pair: those read before the first entry that raises.\<close>

definition pair_rows :: "source \<Rightarrow> string \<Rightarrow> int \<Rightarrow> int \<Rightarrow> string \<Rightarrow> json_name row list" where
  "pair_rows src cc start_year end_year ind =
     List.map_filter (record_of cc ind)
       (takeWhile usable (observations src cc start_year end_year ind))"

text \<open>The pair's \<^verbatim>\<open>try\<close> body leaves with an exception (the handler of line 119 runs).\<close>

definition pair_fails :: "source \<Rightarrow> string \<Rightarrow> int \<Rightarrow> int \<Rightarrow> string \<Rightarrow> bool" where
  "pair_fails src cc start_year end_year ind =
     (case map_of ALL_INDICATORS ind of
        None \<Rightarrow> False
      | Some code \<Rightarrow> snd (try_body src cc ind code start_year end_year []) \<noteq> None)"

definition code_list :: "codes_arg \<Rightarrow> string list" where
  "code_list a = (case a of Str s \<Rightarrow> [s] | Lst l \<Rightarrow> l)"

definition indicator_list :: "string list option \<Rightarrow> string list" where
  "indicator_list i = (case i of None \<Rightarrow> map fst ALL_INDICATORS | Some l \<Rightarrow> l)"

text \<open>What the loops append, pair after pair.\<close>

definition accumulated :: "source \<Rightarrow> string list \<Rightarrow> int \<Rightarrow> int \<Rightarrow> string list
    \<Rightarrow> json_name row list" where
  "accumulated src ccs start_year end_year inds =
     concat (map (\<lambda>cc. concat (map (pair_rows src cc start_year end_year) inds)) ccs)"

subsection \<open>Some sources\<close>

text \<open>A payload whose second entry has a date \<^verbatim>\<open>int\<close> rejects.\<close>

definition partly_malformed_source :: source where
  "partly_malformed_source cc code start_year end_year =
     Body (Some [\<lparr>entry_value = Number 21060473613000, entry_date = Some 2020,
                    entry_country = Some (Hashable (Name ''United States''))\<rparr>,
                 \<lparr>entry_value = Number 5, entry_date = None,
                    entry_country = Some (Hashable (Name ''United States''))\<rparr>])"

definition unreachable_source :: source where
  "unreachable_source cc code start_year end_year = Request_failed"

text \<open>One point for USA in 2020, a null value for CHN in 2021.\<close>

definition example_source :: source where
  "example_source cc code start_year end_year =
     (if cc = ''USA'' \<and> code = ''NY.GDP.MKTP.CD'' then
        Body (Some [\<lparr>entry_value = Number 21060473613000, entry_date = Some 2020,
                       entry_country = Some (Hashable (Name ''United States''))\<rparr>])
      else if cc = ''CHN'' \<and> code = ''NY.GDP.MKTP.CD'' then
        Body (Some [\<lparr>entry_value = Null, entry_date = Some 2021,
                       entry_country = Some (Hashable (Name ''China''))\<rparr>])
      else Request_failed)"

text \<open>A payload whose first entry has a date \<^verbatim>\<open>int\<close> rejects and whose second is well formed.\<close>

definition bad_then_good_source :: source where
  "bad_then_good_source cc code start_year end_year =
     Body (Some [\<lparr>entry_value = Number 5, entry_date = None,
                    entry_country = Some (Hashable (Name ''United States''))\<rparr>,
                 \<lparr>entry_value = Number 7, entry_date = Some 2021,
                    entry_country = Some (Hashable (Name ''United States''))\<rparr>])"

text \<open>One point for the United States and one for China.\<close>

definition two_country_source :: source where
  "two_country_source cc code start_year end_year =
     Body (Some [\<lparr>entry_value = Number (if cc = ''USA'' then 21 else 14), entry_date = Some 2020,
                    entry_country = Some (Hashable (Name (if cc = ''USA'' then ''United States''
                                                         else ''China'')))\<rparr>])"

text \<open>A payload whose country value is a JSON object.\<close>

definition object_name_source :: source where
  "object_name_source cc code start_year end_year =
     Body (Some [\<lparr>entry_value = Number 5, entry_date = Some 2020,
                    entry_country = Some Unhashable\<rparr>])"

subsection \<open>\<^verbatim>\<open>create_chart\<close>\<close>

text \<open>
  A figure, as far as its data goes: a placeholder carrying the annotation's text, a plotly
  express plot of the rows it is given, or a heatmap with its x values, y values and z grid.
  Titles, colours and layout are left out.
\<close>

datatype plot = Line | Bar real | Scatter | Area | Box | Histogram | Default_view

datatype 'n figure =
    Annotation string
  | Plot plot string "'n row list"
  | Heatmap string "real list" "'n list" "real list list"

definition mean :: "real list \<Rightarrow> real" where
  "mean vs = sum_list vs / real (length vs)"

text \<open>
  \<^verbatim>\<open>pivot_table(values='value', index='country_name', columns='year', aggfunc='mean')\<close>:
  one line per country name and one column per year that occur in the rows, both sorted; a
  cell with no row is missing.
\<close>

definition pivot_table :: "('n::linorder) row list \<Rightarrow> 'n list \<times> real list \<times> real option list list" where
  "pivot_table d =
     (let index = sort (remdups (map country_name d));
          columns = sort (remdups (map year d))
      in (index, columns,
          map (\<lambda>c. map (\<lambda>y.
                 (let vs = map val (filter (\<lambda>r. country_name r = c \<and> year r = y) d)
                  in if vs = [] then None else Some (mean vs))) columns) index))"

definition fillna :: "real \<Rightarrow> real option list list \<Rightarrow> real list list" where
  "fillna v z = map (map (\<lambda>cell. case cell of None \<Rightarrow> v | Some x \<Rightarrow> x)) z"

definition create_chart :: "('n::linorder) row list \<Rightarrow> string \<Rightarrow> string \<Rightarrow> string list option
    \<Rightarrow> 'n figure" where
  "create_chart df ind chart_type countries =
     (if df = [] then Annotation ''No data available''
      else
        let indicator_data = filter (\<lambda>r. indicator r = ind) df in
        if indicator_data = [] then Annotation (''No data available for '' @ ind)
        else
          let indicator_data =
                (case countries of
                   None \<Rightarrow> indicator_data
                 | Some cs \<Rightarrow>
                     if cs \<noteq> [] then filter (\<lambda>r. country_code r \<in> set cs) indicator_data
                     else indicator_data)
          in
          if indicator_data = [] then
            Annotation (''No data available for '' @ ind @ '' with selected countries'')
          else if chart_type = ''line'' then Plot Line ind indicator_data
          else if chart_type = ''bar'' then
            (let latest_year = Max (set (map year indicator_data))
             in Plot (Bar latest_year) ind (filter (\<lambda>r. year r = latest_year) indicator_data))
          else if chart_type = ''scatter'' then Plot Scatter ind indicator_data
          else if chart_type = ''area'' then Plot Area ind indicator_data
          else if chart_type = ''box'' then Plot Box ind indicator_data
          else if chart_type = ''heatmap'' then
            (case pivot_table indicator_data of
               (index, columns, cells) \<Rightarrow> Heatmap ind columns index (fillna 0 cells))
          else if chart_type = ''histogram'' then Plot Histogram ind indicator_data
          else Plot Default_view ind indicator_data)"

subsection \<open>Reading a heatmap\<close>

fun index_of :: "'a \<Rightarrow> 'a list \<Rightarrow> nat option" where
  "index_of a [] = None"
| "index_of a (x # xs) =
     (if x = a then Some 0 else (case index_of a xs of None \<Rightarrow> None | Some i \<Rightarrow> Some (Suc i)))"

text \<open>The value the heatmap shows for a country name and a year, if it has such a cell.\<close>

fun heatmap_cell :: "'n figure \<Rightarrow> 'n \<Rightarrow> real \<Rightarrow> real option" where
  "heatmap_cell (Heatmap title xs ys z) c y =
     (case index_of c ys of
        None \<Rightarrow> None
      | Some i \<Rightarrow> (case index_of y xs of None \<Rightarrow> None | Some j \<Rightarrow> Some (z ! i ! j)))"
| "heatmap_cell fig c y = None"

text \<open>The rows a chart is drawn from: those of the indicator, in the selected countries.\<close>

definition selected_rows :: "'n row list \<Rightarrow> string \<Rightarrow> string list option \<Rightarrow> 'n row list" where
  "selected_rows df ind countries =
     (case countries of
        None \<Rightarrow> filter (\<lambda>r. indicator r = ind) df
      | Some cs \<Rightarrow>
          if cs \<noteq> [] then filter (\<lambda>r. country_code r \<in> set cs) (filter (\<lambda>r. indicator r = ind) df)
          else filter (\<lambda>r. indicator r = ind) df)"

text \<open>Germany in 2019 and 2021 alone, and beside France in 2020.\<close>

definition deu_rows :: dataset where
  "deu_rows =
     [\<lparr>country_code = ''DEU'', country_name = ''Germany'', indicator = ''GDP Per Capita'',
        year = 2019, val = 46800\<rparr>,
      \<lparr>country_code = ''DEU'', country_name = ''Germany'', indicator = ''GDP Per Capita'',
        year = 2021, val = 51200\<rparr>]"

definition deu_fra_rows :: dataset where
  "deu_fra_rows = deu_rows @
     [\<lparr>country_code = ''FRA'', country_name = ''France'', indicator = ''GDP Per Capita'',
        year = 2020, val = 39000\<rparr>]"

subsection \<open>Page components and stores\<close>

text \<open>
  What a callback puts on the page: a chart card with the index of its pattern-matching
  ids, its indicator and its figure; an alert with its message; a text; a \<^verbatim>\<open>html.Div\<close>;
  the export card.
\<close>

datatype 'n component =
    Chart_card nat string "'n figure"
  | Alert string
  | Text string
  | Div "'n component list"
  | Export_card

text \<open>
  The data of a \<^verbatim>\<open>dcc.Store\<close>: never written (\<^verbatim>\<open>None\<close>), the empty dictionary
  \<^verbatim>\<open>{}\<close>, or a value.
\<close>

datatype 'a store = Unset | Empty_dict | Stored 'a

text \<open>The view state: the dictionary with the keys source, indicators and countries.\<close>

record ui_state =
  state_source :: string
  state_indicators :: "string list"
  state_countries :: "string list"

text \<open>Truth value of a stored list of records, as \<^verbatim>\<open>if existing_data\<close> reads it.\<close>

fun truthy_rows :: "'n row list store \<Rightarrow> bool" where
  "truthy_rows (Stored d) = (d \<noteq> [])"
| "truthy_rows s = False"

text \<open>Truth value of the stored view state: a dictionary with its three keys is true.\<close>

fun truthy_state :: "ui_state store \<Rightarrow> bool" where
  "truthy_state (Stored u) = True"
| "truthy_state s = False"

text \<open>\<^verbatim>\<open>Series.unique()\<close>: the distinct values in order of first appearance.\<close>

definition unique :: "'a list \<Rightarrow> 'a list" where
  "unique xs = rev (remdups (rev xs))"

subsection \<open>\<^verbatim>\<open>create_charts_and_export\<close>\<close>

text \<open>Lines 582 to 612: the loop over \<^verbatim>\<open>enumerate(indicators)\<close>.\<close>

fun chart_cards :: "('n::linorder) row list \<Rightarrow> string list option \<Rightarrow> nat \<Rightarrow> string list
    \<Rightarrow> 'n component list" where
  "chart_cards df cs i [] = []"
| "chart_cards df cs i (ind # rest) =
     (if ind \<notin> set (map indicator df) then chart_cards df cs (Suc i) rest
      else Chart_card i ind (create_chart df ind ''line'' cs) # chart_cards df cs (Suc i) rest)"

definition create_charts_and_export :: "('n::linorder) row list \<Rightarrow> string list
    \<Rightarrow> string list option \<Rightarrow> 'n component list \<times> 'n component" where
  "create_charts_and_export df inds cs = (chart_cards df cs 0 inds, Export_card)"

subsection \<open>\<^verbatim>\<open>fetch_and_display_data\<close>\<close>

text \<open>The component whose click triggered the callback, if any.\<close>

datatype trigger = Not_triggered | Fetch_data_btn | Use_imported_btn

text \<open>Truth value of \<^verbatim>\<open>n_clicks\<close>.\<close>

definition clicked :: "nat option \<Rightarrow> bool" where
  "clicked n = (case n of None \<Rightarrow> False | Some k \<Rightarrow> k \<noteq> 0)"

text \<open>
  The five outputs: the children of the charts container, the children of the export
  section, its display style, the data store and the view-state store. An unset dropdown
  value is the empty list.
\<close>

type_synonym 'n outputs =
  "'n component list \<times> 'n component list \<times> string \<times> 'n row list store \<times> ui_state store"

definition nothing_to_show :: "'n outputs" where
  "nothing_to_show = ([], [Text ''''], ''none'', Empty_dict, Empty_dict)"

definition show_data :: "('n::linorder) row list \<Rightarrow> string \<Rightarrow> string list \<Rightarrow> string list
    \<Rightarrow> 'n outputs" where
  "show_data df data_source indicators_in_data selected_countries =
     (if df = [] then
        ([Alert ''No data found. Please try different selections or upload a CSV file.''],
         [Text ''''], ''none'', Empty_dict, Empty_dict)
      else
        (case create_charts_and_export df indicators_in_data
                (if data_source = ''api'' then Some selected_countries else None) of
           (charts, export_section) \<Rightarrow>
             (charts, [export_section], ''block'', Stored df,
              Stored \<lparr>state_source = data_source, state_indicators = indicators_in_data,
                       state_countries = (if data_source = ''api'' then selected_countries
                                    else unique (map country_code df))\<rparr>)))"

definition fetch_and_display_data :: "source \<Rightarrow> trigger \<Rightarrow> nat option \<Rightarrow> nat option
    \<Rightarrow> string list \<Rightarrow> string list \<Rightarrow> int \<times> int
    \<Rightarrow> frame store \<Rightarrow> frame store \<Rightarrow> ui_state store \<Rightarrow> name outputs outcome" where
  "fetch_and_display_data src trig fetch_clicks import_clicks selected_countries
       selected_indicators year_range imported_data existing_data existing_ui_state =
     (case trig of
        Not_triggered \<Rightarrow>
          (case (existing_data, existing_ui_state) of
             (Stored d, Stored u) \<Rightarrow>
               if d \<noteq> [] then
                 (case create_charts_and_export d (state_indicators u) (Some (state_countries u)) of
                    (charts, export_section) \<Rightarrow>
                      Returns (charts, [export_section], ''block'', existing_data,
                               existing_ui_state))
               else Returns nothing_to_show
           | _ \<Rightarrow> Returns nothing_to_show)
      | Use_imported_btn \<Rightarrow>
          if clicked import_clicks \<and> truthy_rows imported_data then
            (case imported_data of
               Stored df \<Rightarrow> Returns (show_data df ''imported'' (unique (map indicator df))
                                        selected_countries)
             | _ \<Rightarrow> Returns nothing_to_show)
          else Returns nothing_to_show
      | Fetch_data_btn \<Rightarrow>
          if clicked fetch_clicks \<and> selected_countries \<noteq> [] \<and> selected_indicators \<noteq> [] then
            (case fetch_country_data src (Lst selected_countries) (fst year_range)
                    (snd year_range) (Some selected_indicators) of
               Raises e \<Rightarrow> Raises e
             | Returns df \<Rightarrow> Returns (show_data df ''api'' selected_indicators selected_countries))
          else Returns nothing_to_show)"

text \<open>The indicators that have a chart card among some components.\<close>

fun displayed_indicators :: "'n component list \<Rightarrow> string list" where
  "displayed_indicators [] = []"
| "displayed_indicators (Chart_card i ind fig # cs) = ind # displayed_indicators cs"
| "displayed_indicators (c # cs) = displayed_indicators cs"

subsection \<open>\<^verbatim>\<open>clear_all_data\<close>\<close>

record chart_image =
  image_indicator :: string
  image_chart_type :: string
  image_b64 :: "string option"

text \<open>
  The page state the callbacks read and write: the ten outputs of \<^verbatim>\<open>clear_all_data\<close>,
  then state it leaves alone.
\<close>

record 'n page =
  country_dropdown :: "string list"
  indicator_dropdown :: "string list"
  data_store :: "'n row list store"
  imported_data_store :: "'n row list store"
  ui_state_store :: "ui_state store"
  chart_images_store :: "chart_image list"
  charts_container :: "'n component list"
  export_section_style :: string
  upload_status :: "'n component list"
  use_imported_btn_disabled :: bool
  countries_store :: "(string \<times> string) list store"
  year_slider :: "int \<times> int"
  export_section :: "'n component list"

text \<open>\<^verbatim>\<open>empty_data\<close> is \<open>Empty_dict\<close>; a missing \<^verbatim>\<open>n_clicks\<close> updates nothing.\<close>

definition clear_all_data :: "nat option \<Rightarrow> 'n page \<Rightarrow> 'n page" where
  "clear_all_data n_clicks p =
     (case n_clicks of
        None \<Rightarrow> p
      | Some n \<Rightarrow>
          (let default_indicators = [''GDP (Current US$)'', ''GDP Growth (Annual %)'']
           in p\<lparr>country_dropdown := [],
                indicator_dropdown := default_indicators,
                data_store := Empty_dict,
                imported_data_store := Empty_dict,
                ui_state_store := Empty_dict,
                chart_images_store := [],
                charts_container := [Div []],
                export_section_style := ''none'',
                upload_status := [Text ''''],
                use_imported_btn_disabled := True\<rparr>))"

subsection \<open>\<^verbatim>\<open>fetch_all_countries\<close>\<close>

text \<open>One element of the country directory's \<^verbatim>\<open>data[1]\<close>; an empty string is false.\<close>

record country =
  country_display_name :: string
  country_id :: string
  capitalCity :: string
  longitude :: string
  latitude :: string

text \<open>
  The answer of the directory endpoint. \<open>Directory_failed\<close>: a line of the \<^verbatim>\<open>try\<close>
  (56 to 69) raises. \<open>Directory None\<close>: fewer than two elements, or a falsy second one.
\<close>

datatype directory_response = Directory_failed | Directory "country list option"

text \<open>
  The two module globals. Times are microseconds since some origin, as
  \<^verbatim>\<open>datetime\<close> counts them.
\<close>

record cache =
  countries_cache :: "(string \<times> string) list option"
  cache_timestamp :: "int option"

text \<open>
  \<^verbatim>\<open>(now - stamp).seconds\<close>: a \<^verbatim>\<open>timedelta\<close> is normalised into days, seconds
  (0 to 86399) and microseconds; \<^verbatim>\<open>.seconds\<close> is the middle component.
\<close>

definition timedelta_seconds :: "int \<Rightarrow> int \<Rightarrow> int" where
  "timedelta_seconds now stamp = ((now - stamp) div 1000000) mod 86400"

text \<open>\<^verbatim>\<open>d[k] = v\<close> on a dictionary kept as its list of items, in insertion order.\<close>

fun dict_set :: "'k \<Rightarrow> 'v \<Rightarrow> ('k \<times> 'v) list \<Rightarrow> ('k \<times> 'v) list" where
  "dict_set k v [] = [(k, v)]"
| "dict_set k v (p # ps) = (if fst p = k then (k, v) # ps else p # dict_set k v ps)"

definition FALLBACK_COUNTRIES :: "(string \<times> string) list" where
  "FALLBACK_COUNTRIES =
     [(''United States'', ''USA''), (''China'', ''CHN''), (''Japan'', ''JPN''),
      (''Germany'', ''DEU''), (''India'', ''IND''), (''United Kingdom'', ''GBR''),
      (''France'', ''FRA''), (''Italy'', ''ITA''), (''Brazil'', ''BRA''),
      (''Canada'', ''CAN''), (''Russia'', ''RUS''), (''South Korea'', ''KOR'')]"

text \<open>Lines 61 to 65: the countries kept, by display name.\<close>

definition keep_countries :: "country list option \<Rightarrow> (string \<times> string) list" where
  "keep_countries body =
     (case body of
        None \<Rightarrow> []
      | Some cs \<Rightarrow>
          fold (\<lambda>c countries.
                  if capitalCity c \<noteq> [] \<and> longitude c \<noteq> [] \<and> latitude c \<noteq> []
                  then dict_set (country_display_name c) (country_id c) countries
                  else countries) cs [])"

text \<open>
  Lines 55 to 77. The result: the mapping returned, the globals afterwards, and whether the
  source was queried. \<open>now\<close> is the clock read on line 52, \<open>later\<close> the one read on
  line 68.
\<close>

definition refresh_countries :: "int \<Rightarrow> directory_response \<Rightarrow> cache
    \<Rightarrow> (string \<times> string) list \<times> cache \<times> bool" where
  "refresh_countries later resp g =
     (case resp of
        Directory_failed \<Rightarrow> (FALLBACK_COUNTRIES, g, True)
      | Directory body \<Rightarrow>
          (let sorted_countries = sort (keep_countries body)
           in (sorted_countries,
               \<lparr>countries_cache = Some sorted_countries, cache_timestamp = Some later\<rparr>,
               True)))"

definition fetch_all_countries :: "int \<Rightarrow> int \<Rightarrow> directory_response \<Rightarrow> cache
    \<Rightarrow> (string \<times> string) list \<times> cache \<times> bool" where
  "fetch_all_countries now later resp g =
     (case countries_cache g of
        None \<Rightarrow> refresh_countries later resp g
      | Some cached \<Rightarrow>
          (case cache_timestamp g of
             None \<Rightarrow> refresh_countries later resp g
           | Some stamp \<Rightarrow>
               if timedelta_seconds now stamp < 86400 then (cached, g, False)
               else refresh_countries later resp g))"

text \<open>A cache filled at time 0, and a directory that has since changed.\<close>

definition old_cache :: cache where
  "old_cache = \<lparr>countries_cache = Some [(''Germany'', ''DEU'')], cache_timestamp = Some 0\<rparr>"

definition new_directory :: directory_response where
  "new_directory =
     Directory (Some [\<lparr>country_display_name = ''France'', country_id = ''FRA'',
                         capitalCity = ''Paris'', longitude = ''2.35097'',
                         latitude = ''48.8566''\<rparr>])"

subsection \<open>\<^verbatim>\<open>parse_uploaded_csv\<close>\<close>

text \<open>
  A cell of the table \<^verbatim>\<open>pd.read_csv\<close> reads: missing (\<open>NA\<close>), or a text together
  with the number \<^verbatim>\<open>pd.to_numeric\<close> makes of it, if any. The three text columns are
  kept as text.
\<close>

datatype cell = NA | Cell string "real option"

text \<open>A row gives a cell for each column name (\<open>NA\<close> where it has none).\<close>

record table =
  table_columns :: "string list"
  table_rows :: "(string \<Rightarrow> cell) list"

text \<open>
  The upload. \<open>Malformed_contents\<close>: line 297 or 298 raises (the string does not split
  into two parts at a comma, or is not base64). \<open>Unreadable\<close>: line 301 raises (not
  UTF-8, or \<^verbatim>\<open>read_csv\<close> rejects the text).
\<close>

datatype csv_text = Unreadable | Readable table

datatype contents = Malformed_contents | Payload csv_text

datatype message = Uploaded | Missing_columns | Not_a_csv_file | Processing_error

definition required_cols :: "string list" where
  "required_cols = [''country_code'', ''country_name'', ''indicator'', ''year'', ''value'']"

fun starts_with :: "string \<Rightarrow> string \<Rightarrow> bool" where
  "starts_with [] s = True"
| "starts_with (p # ps) [] = False"
| "starts_with (p # ps) (c # cs) = (p = c \<and> starts_with ps cs)"

text \<open>\<^verbatim>\<open>sub in s\<close> on strings.\<close>

fun contains :: "string \<Rightarrow> string \<Rightarrow> bool" where
  "contains sub [] = (sub = [])"
| "contains sub (c # cs) = (starts_with sub (c # cs) \<or> contains sub cs)"

definition to_numeric :: "cell \<Rightarrow> real option" where
  "to_numeric c = (case c of NA \<Rightarrow> None | Cell s n \<Rightarrow> n)"

definition text_of :: "cell \<Rightarrow> string option" where
  "text_of c = (case c of NA \<Rightarrow> None | Cell s n \<Rightarrow> Some s)"

text \<open>
  Lines 306 to 309 on one row: the five columns, year and value coerced, the row dropped
  when one of the five is missing.
\<close>

definition import_row :: "(string \<Rightarrow> cell) \<Rightarrow> string row option" where
  "import_row r =
     (case text_of (r ''country_code'') of None \<Rightarrow> None | Some cc \<Rightarrow>
      (case text_of (r ''country_name'') of None \<Rightarrow> None | Some name \<Rightarrow>
       (case text_of (r ''indicator'') of None \<Rightarrow> None | Some ind \<Rightarrow>
        (case to_numeric (r ''year'') of None \<Rightarrow> None | Some y \<Rightarrow>
         (case to_numeric (r ''value'') of None \<Rightarrow> None | Some v \<Rightarrow>
            Some \<lparr>country_code = cc, country_name = name, indicator = ind,
                   year = y, val = v\<rparr>)))))"

definition parse_uploaded_csv :: "contents \<Rightarrow> string \<Rightarrow> dataset option \<times> message" where
  "parse_uploaded_csv cont filename =
     (case cont of
        Malformed_contents \<Rightarrow> (None, Processing_error)
      | Payload text \<Rightarrow>
          if contains ''csv'' filename then
            (case text of
               Unreadable \<Rightarrow> (None, Processing_error)
             | Readable df \<Rightarrow>
                 if \<not> list_all (\<lambda>col. col \<in> set (table_columns df)) required_cols
                 then (None, Missing_columns)
                 else (Some (List.map_filter import_row (table_rows df)), Uploaded))
          else (None, Not_a_csv_file))"

text \<open>A table with the five columns and three rows, of which the second has a bad year.\<close>

definition good_row :: "string \<Rightarrow> cell" where
  "good_row col =
     (if col = ''country_code'' then Cell ''USA'' None
      else if col = ''country_name'' then Cell ''United States'' None
      else if col = ''indicator'' then Cell ''Population'' None
      else if col = ''year'' then Cell ''2020'' (Some 2020)
      else if col = ''value'' then Cell ''331500000'' (Some 331500000)
      else NA)"

definition bad_year_row :: "string \<Rightarrow> cell" where
  "bad_year_row col = (if col = ''year'' then Cell ''n/k'' None else good_row col)"

definition five_column_table :: table where
  "five_column_table =
     \<lparr>table_columns = [''country_code'', ''country_name'', ''indicator'', ''year'', ''value''],
      table_rows = [good_row, bad_year_row, good_row]\<rparr>"

subsection \<open>\<^verbatim>\<open>export_to_csv\<close>\<close>

text \<open>
  The texts \<^verbatim>\<open>pd.read_csv\<close> takes for a missing value when it is called as on line 301,
  with its default markers (those of pandas 2, which \<^verbatim>\<open>run_dashboard.py\<close> requires).
\<close>

definition NA_VALUES :: "string list" where
  "NA_VALUES =
     ['''', ''#N/A'', ''#N/A N/A'', ''#NA'', ''-1.#IND'', ''-1.#QNAN'', ''-NaN'', ''-nan'',
      ''1.#IND'', ''1.#QNAN'', ''<NA>'', ''N/A'', ''NA'', ''NULL'', ''NaN'', ''None'', ''n/a'',
      ''nan'', ''null'']"

text \<open>
  The cell \<^verbatim>\<open>read_csv\<close> makes of a field that holds the text \<open>s\<close>.
  \<open>number_read\<close> is the number (or the boolean, as the number it equals) pandas reads
  from a text, if any.
\<close>

definition read_back :: "(string \<Rightarrow> real option) \<Rightarrow> string \<Rightarrow> cell" where
  "read_back number_read s = (if s \<in> set NA_VALUES then NA else Cell s (number_read s))"

text \<open>
  One line of the file \<^verbatim>\<open>to_csv\<close> writes, as \<^verbatim>\<open>read_csv\<close> reads it: the five
  columns of line 218, a text written as it is, a number written as the text
  \<open>number_text\<close> gives it.
\<close>

definition written_row :: "(real \<Rightarrow> string) \<Rightarrow> (string \<Rightarrow> real option) \<Rightarrow> string row
    \<Rightarrow> string \<Rightarrow> cell" where
  "written_row number_text number_read r col =
     (if col = ''country_code'' then read_back number_read (country_code r)
      else if col = ''country_name'' then read_back number_read (country_name r)
      else if col = ''indicator'' then read_back number_read (indicator r)
      else if col = ''year'' then read_back number_read (number_text (year r))
      else if col = ''value'' then read_back number_read (number_text (val r))
      else NA)"

text \<open>A file on disk: its name and the table \<^verbatim>\<open>read_csv\<close> reads from it.\<close>

record csv_file =
  file_name :: string
  file_table :: table

text \<open>
  Lines 214 to 223. The frame is \<open>None\<close> when it has no columns (the empty
  \<^verbatim>\<open>pd.DataFrame()\<close> of line 127, on which line 218 raises \<^verbatim>\<open>KeyError\<close>), and
  \<open>Some\<close> rows when it has the five columns. \<open>writable\<close>: the directory can be made
  and the file written. The result stands for the path returned and the file written, or
  for the \<^verbatim>\<open>None\<close> of line 223.
\<close>

definition export_to_csv :: "(real \<Rightarrow> string) \<Rightarrow> (string \<Rightarrow> real option) \<Rightarrow> bool
    \<Rightarrow> dataset option \<Rightarrow> string \<Rightarrow> csv_file option" where
  "export_to_csv number_text number_read writable df filename =
     (case df of
        None \<Rightarrow> None
      | Some rows \<Rightarrow>
          if writable then
            Some \<lparr>file_name = filename,
                  file_table =
                    \<lparr>table_columns =
                       [''country_code'', ''country_name'', ''indicator'', ''year'', ''value''],
                     table_rows = map (written_row number_text number_read) rows\<rparr>\<rparr>
          else None)"

text \<open>The exported file, uploaded through the browser and parsed: the round trip.\<close>

definition reimport :: "csv_file \<Rightarrow> dataset option \<times> message" where
  "reimport f = parse_uploaded_csv (Payload (Readable (file_table f))) (file_name f)"

text \<open>A text that comes back from the file as it went in.\<close>

definition plain_text :: "string \<Rightarrow> bool" where
  "plain_text s = (s \<notin> set NA_VALUES)"

text \<open>
  A text pandas does not read as a number: a column of such texts stays a column of texts,
  as the table model has it.
\<close>

definition read_as_text :: "(string \<Rightarrow> real option) \<Rightarrow> string \<Rightarrow> bool" where
  "read_as_text number_read s = (number_read s = None)"

text \<open>A number that comes back from the file as it went in.\<close>

definition plain_number :: "(real \<Rightarrow> string) \<Rightarrow> (string \<Rightarrow> real option) \<Rightarrow> real \<Rightarrow> bool" where
  "plain_number number_text number_read x =
     (number_text x \<notin> set NA_VALUES \<and> number_read (number_text x) = Some x)"

text \<open>The way the numbers of the examples below are written and read.\<close>

definition example_number_text :: "real \<Rightarrow> string" where
  "example_number_text x =
     (if x = 2020 then ''2020'' else if x = 331500000 then ''331500000.0''
      else if x = 2540000 then ''2540000.0'' else '''')"

definition example_number_read :: "string \<Rightarrow> real option" where
  "example_number_read s =
     (if s = ''2020'' then Some 2020 else if s = ''331500000.0'' then Some 331500000
      else if s = ''2540000.0'' then Some 2540000 else None)"

text \<open>The population of the United States, and that of Namibia under its two-letter code.\<close>

definition usa_population :: "string row" where
  "usa_population =
     \<lparr>country_code = ''USA'', country_name = ''United States'', indicator = ''Population'',
      year = 2020, val = 331500000\<rparr>"

definition namibia_population :: "string row" where
  "namibia_population =
     \<lparr>country_code = ''NA'', country_name = ''Namibia'', indicator = ''Population'',
      year = 2020, val = 2540000\<rparr>"

section \<open>Theorems\<close>

subsection \<open>The loops of \<^verbatim>\<open>fetch_country_data\<close>\<close>

lemma append_entries_eq:
  "append_entries cc ind es acc =
     (acc @ List.map_filter (record_of cc ind) (takeWhile usable es),
      if list_all usable es then None else Some PayloadError)"
proof (induction es arbitrary: acc)
  case Nil
  show ?case by simp
next
  case (Cons e es)
  show ?case
  proof (cases "entry_value e")
    case Null
    then show ?thesis using Cons.IH [of acc]
      by (simp add: usable_def record_of_def)
  next
    case (Number v)
    then show ?thesis using Cons.IH
      by (cases "entry_country e"; cases "entry_date e")
         (simp_all add: usable_def record_of_def)
  next
    case Unusable
    then show ?thesis by (simp add: usable_def)
  qed
qed

lemma try_body_rows:
  "map_of ALL_INDICATORS ind = Some code \<Longrightarrow>
   fst (try_body src cc ind code s e acc) = acc @ pair_rows src cc s e ind"
  by (simp add: try_body_def pair_rows_def observations_def append_entries_eq
      split: response.splits option.splits)

lemma except_continue_eq: "except_continue r = (fst r, None)"
  by (cases r) (simp add: except_continue_def split: option.splits)

lemma indicators_loop_eq:
  "indicators_loop src cc s e inds acc = (acc @ concat (map (pair_rows src cc s e) inds), None)"
proof (induction inds arbitrary: acc)
  case Nil
  show ?case by simp
next
  case (Cons i inds)
  show ?case
  proof (cases "map_of ALL_INDICATORS i")
    case None
    then have "pair_rows src cc s e i = []"
      by (simp add: pair_rows_def observations_def)
    with None Cons.IH show ?thesis by simp
  next
    case (Some code)
    then show ?thesis using Cons.IH
      by (simp add: except_continue_eq try_body_rows)
  qed
qed

lemma countries_loop_eq:
  "countries_loop src s e inds ccs acc = (acc @ accumulated src ccs s e inds, None)"
  by (induction ccs arbitrary: acc) (simp_all add: indicators_loop_eq accumulated_def)

lemma sort_values_Nil: "sort_values [] = Returns []"
  by (simp add: sort_values_def)

lemma fetch_country_data_eq:
  "fetch_country_data src codes s e inds =
     sort_values (accumulated src (code_list codes) s e (indicator_list inds))"
  by (simp add: fetch_country_data_def countries_loop_eq code_list_def indicator_list_def
      sort_values_Nil Let_def)

lemma gdp_code: "map_of ALL_INDICATORS ''GDP (Current US$)'' = Some ''NY.GDP.MKTP.CD''"
  by (simp add: ALL_INDICATORS_def ECONOMIC_INDICATORS_def)

text \<open>Every row can be hashed exactly when no country name is an array or an object.\<close>

lemma those_hashable_row:
  "(\<exists>rows. those (map hashable_row df) = Some rows)
     \<longleftrightarrow> list_all (\<lambda>r. country_name r \<noteq> Unhashable) df"
proof (induction df)
  case Nil
  show ?case by simp
next
  case (Cons r df)
  show ?case
  proof (cases "country_name r")
    case (Hashable n)
    with Cons show ?thesis
      by (cases "those (map hashable_row df)") (simp_all add: hashable_row_def)
  next
    case Unhashable
    then show ?thesis by (simp add: hashable_row_def)
  qed
qed

text \<open>
  The sort is outside the \<^verbatim>\<open>try\<close>: a country value that is a JSON object is appended by
  line 112 and makes line 125 raise past the function.
\<close>

lemma fetch_country_data_object_name:
  "fetch_country_data object_name_source (Lst [''USA'']) 2020 2021 (Some [''GDP (Current US$)''])
     = Raises TypeError"
  by (simp add: fetch_country_data_def gdp_code try_body_def except_continue_def
      object_name_source_def sort_values_def hashable_row_def)

text \<open>
  C1, as amended. A failure of any single (country, indicator) request is caught and does
  not abort the remaining pairs: what the loops accumulate is the concatenation of what each
  pair contributes on its own (\<open>pair_rows\<close>). A pair whose request fails contributes
  nothing; a pair whose payload raises part-way contributes the records read before the
  entry that raises. \<^verbatim>\<open>fetch_country_data\<close> then returns a dataset and does not raise,
  provided no record accumulated has an array or an object for country name; when every
  request fails the result is the empty dataset.
\<close>

theorem fetch_country_data_best_effort:
  "fetch_country_data src codes s e inds =
     sort_values (accumulated src (code_list codes) s e (indicator_list inds))
   \<and> (list_all (\<lambda>r. country_name r \<noteq> Unhashable)
         (accumulated src (code_list codes) s e (indicator_list inds))
       \<longrightarrow> (\<exists>ds. fetch_country_data src codes s e inds = Returns ds))
   \<and> (\<forall>cc ind. pair_rows src cc s e ind =
         List.map_filter (record_of cc ind) (takeWhile usable (observations src cc s e ind)))
   \<and> (\<forall>cc ind code. map_of ALL_INDICATORS ind = Some code \<longrightarrow> src cc code s e = Request_failed
         \<longrightarrow> pair_rows src cc s e ind = [])
   \<and> ((\<forall>cc\<in>set (code_list codes). \<forall>ind\<in>set (indicator_list inds). \<forall>code.
          map_of ALL_INDICATORS ind = Some code \<longrightarrow> src cc code s e = Request_failed)
        \<longrightarrow> fetch_country_data src codes s e inds = Returns [])"
proof (intro conjI allI impI)
  show "fetch_country_data src codes s e inds =
     sort_values (accumulated src (code_list codes) s e (indicator_list inds))"
    by (rule fetch_country_data_eq)
next
  assume "list_all (\<lambda>r. country_name r \<noteq> Unhashable)
         (accumulated src (code_list codes) s e (indicator_list inds))"
  then obtain rows where
    "those (map hashable_row (accumulated src (code_list codes) s e (indicator_list inds)))
       = Some rows"
    using those_hashable_row by blast
  then show "\<exists>ds. fetch_country_data src codes s e inds = Returns ds"
    by (simp add: fetch_country_data_eq sort_values_def)
next
  fix cc ind
  show "pair_rows src cc s e ind =
         List.map_filter (record_of cc ind) (takeWhile usable (observations src cc s e ind))"
    by (simp add: pair_rows_def)
next
  fix cc ind code
  assume "map_of ALL_INDICATORS ind = Some code" "src cc code s e = Request_failed"
  then show "pair_rows src cc s e ind = []"
    by (simp add: pair_rows_def observations_def)
next
  assume all: "\<forall>cc\<in>set (code_list codes). \<forall>ind\<in>set (indicator_list inds). \<forall>code.
          map_of ALL_INDICATORS ind = Some code \<longrightarrow> src cc code s e = Request_failed"
  have "pair_rows src cc s e ind = []"
    if "cc \<in> set (code_list codes)" "ind \<in> set (indicator_list inds)" for cc ind
    using that all by (simp add: pair_rows_def observations_def split: option.splits)
  then have "accumulated src (code_list codes) s e (indicator_list inds) = []"
    by (simp add: accumulated_def)
  then show "fetch_country_data src codes s e inds = Returns []"
    by (simp add: fetch_country_data_eq sort_values_Nil)
qed

text \<open>
  Witness for C1: two countries, one indicator, a source that fails every request.
\<close>

theorem fetch_country_data_best_effort_witness:
  "unreachable_source ''USA'' ''NY.GDP.MKTP.CD'' 2020 2021 = Request_failed
   \<and> unreachable_source ''CHN'' ''NY.GDP.MKTP.CD'' 2020 2021 = Request_failed
   \<and> fetch_country_data unreachable_source (Lst [''USA'', ''CHN'']) 2020 2021
        (Some [''GDP (Current US$)'']) = Returns []"
  using fetch_country_data_best_effort [of unreachable_source "Lst [''USA'', ''CHN'']" 2020 2021
      "Some [''GDP (Current US$)'']", THEN conjunct2, THEN conjunct2, THEN conjunct2,
      THEN conjunct2]
  by (simp add: unreachable_source_def code_list_def indicator_list_def)

text \<open>
  Counterexample to C1 as stated: the only pair fails (its second entry raises, the handler
  runs), yet the pair is not skipped and the result is not empty: the record appended before
  the exception is returned.
\<close>

theorem fetch_country_data_partial_pair:
  "pair_fails partly_malformed_source ''USA'' 2020 2021 ''GDP (Current US$)''
   \<and> fetch_country_data partly_malformed_source (Lst [''USA'']) 2020 2021
        (Some [''GDP (Current US$)''])
      = Returns [\<lparr>country_code = ''USA'', country_name = Name ''United States'',
                   indicator = ''GDP (Current US$)'', year = 2020, val = 21060473613000\<rparr>]"
  by (simp add: pair_fails_def gdp_code fetch_country_data_def try_body_def except_continue_def
      partly_malformed_source_def sort_values_def hashable_row_def)

text \<open>Among texts, the order of country names is the order of strings.\<close>

lemma Name_le: "Name a \<le> Name b \<longleftrightarrow> a \<le> b"
  by (auto simp: less_eq_name_def)

lemma two_country_fetch:
  "fetch_country_data two_country_source (Lst [''USA'', ''CHN'']) 2020 2021
      (Some [''GDP (Current US$)''])
   = Returns [\<lparr>country_code = ''CHN'', country_name = Name ''China'',
                indicator = ''GDP (Current US$)'', year = 2020, val = 14\<rparr>,
              \<lparr>country_code = ''USA'', country_name = Name ''United States'',
                indicator = ''GDP (Current US$)'', year = 2020, val = 21\<rparr>]"
  by (simp add: fetch_country_data_def gdp_code try_body_def except_continue_def
      two_country_source_def sort_values_def hashable_row_def less_eq_name_def
      less_name_def)

text \<open>
  C7. The dataset returned by \<^verbatim>\<open>fetch_country_data\<close> is sorted ascending by
  (country name, indicator, year), country names that are texts being ordered as strings, and
  the sort is stable: the records with a given key come in the order in which the loops
  accumulated them.
\<close>

theorem fetch_country_data_sorted_stable:
  assumes "fetch_country_data src codes s e inds = Returns ds"
  shows "sorted (map (\<lambda>r. (country_name r, indicator r, year r)) ds)
     \<and> (\<exists>rows. those (map hashable_row
                   (fst (countries_loop src s e (indicator_list inds) (code_list codes) [])))
                 = Some rows
          \<and> (\<forall>k. filter (\<lambda>r. (country_name r, indicator r, year r) = k) ds
                 = filter (\<lambda>r. (country_name r, indicator r, year r) = k) rows))
     \<and> (\<forall>a b. Name a \<le> Name b \<longleftrightarrow> a \<le> b)"
proof -
  let ?acc = "accumulated src (code_list codes) s e (indicator_list inds)"
  from assms obtain rows where rows: "those (map hashable_row ?acc) = Some rows"
    and ds: "ds = sort_key (\<lambda>r. (country_name r, indicator r, year r)) rows"
    by (auto simp: fetch_country_data_eq sort_values_def split: option.splits)
  from ds have "sorted (map (\<lambda>r. (country_name r, indicator r, year r)) ds)"
    by simp
  moreover from ds
  have "\<forall>k. filter (\<lambda>r. (country_name r, indicator r, year r) = k) ds
           = filter (\<lambda>r. (country_name r, indicator r, year r) = k) rows"
    by (simp add: sort_key_stable)
  ultimately show ?thesis
    using rows by (simp add: countries_loop_eq Name_le)
qed

text \<open>
  Witness for C7: the United States are fetched before China and come after it in the
  dataset.
\<close>

theorem fetch_country_data_sorted_stable_witness:
  "fetch_country_data two_country_source (Lst [''USA'', ''CHN'']) 2020 2021
      (Some [''GDP (Current US$)''])
   = Returns [\<lparr>country_code = ''CHN'', country_name = Name ''China'',
                indicator = ''GDP (Current US$)'', year = 2020, val = 14\<rparr>,
              \<lparr>country_code = ''USA'', country_name = Name ''United States'',
                indicator = ''GDP (Current US$)'', year = 2020, val = 21\<rparr>]
   \<and> sorted (map (\<lambda>r. (country_name r, indicator r, year r))
        [\<lparr>country_code = ''CHN'', country_name = Name ''China'',
           indicator = ''GDP (Current US$)'', year = 2020, val = 14::real\<rparr>,
         \<lparr>country_code = ''USA'', country_name = Name ''United States'',
           indicator = ''GDP (Current US$)'', year = 2020, val = 21\<rparr>])"
  using fetch_country_data_sorted_stable [OF two_country_fetch, THEN conjunct1] two_country_fetch
  by simp

text \<open>
  C6, as amended. In the dataset \<^verbatim>\<open>fetch_country_data\<close> produces, every observation with
  a value that is read before an entry of its payload raises becomes exactly one record,
  carrying that value, and an observation whose value is null becomes none; an entry that
  raises ends the reading of its payload, and the observations after it give no record.
\<close>

theorem fetch_country_data_non_null_records:
  assumes "fetch_country_data src codes s e inds = Returns ds"
  shows "(\<exists>rows.
        those (map hashable_row
          (concat (map (\<lambda>cc. concat (map (\<lambda>ind.
             List.map_filter (record_of cc ind) (takeWhile usable (observations src cc s e ind)))
             (indicator_list inds))) (code_list codes)))) = Some rows
        \<and> ds = sort_key (\<lambda>r. (country_name r, indicator r, year r)) rows)
   \<and> (\<forall>cc ind x. usable x \<longrightarrow>
         (record_of cc ind x = None \<longleftrightarrow> entry_value x = Null)
       \<and> (\<forall>v. entry_value x = Number v \<longrightarrow>
             (\<exists>n y. record_of cc ind x = Some \<lparr>country_code = cc, country_name = n,
                 indicator = ind, year = y, val = v\<rparr>)))"
proof (intro conjI allI impI)
  have "accumulated src (code_list codes) s e (indicator_list inds) =
     concat (map (\<lambda>cc. concat (map (\<lambda>ind.
        List.map_filter (record_of cc ind) (takeWhile usable (observations src cc s e ind)))
        (indicator_list inds))) (code_list codes))"
    by (simp add: accumulated_def pair_rows_def [abs_def])
  with assms show "\<exists>rows.
        those (map hashable_row
          (concat (map (\<lambda>cc. concat (map (\<lambda>ind.
             List.map_filter (record_of cc ind) (takeWhile usable (observations src cc s e ind)))
             (indicator_list inds))) (code_list codes)))) = Some rows
        \<and> ds = sort_key (\<lambda>r. (country_name r, indicator r, year r)) rows"
    by (auto simp: fetch_country_data_eq sort_values_def split: option.splits)
next
  fix cc ind x
  assume "usable x"
  then show "record_of cc ind x = None \<longleftrightarrow> entry_value x = Null"
    by (auto simp: usable_def record_of_def split: source_value.splits option.splits)
next
  fix cc ind x v
  assume "usable x" "entry_value x = Number v"
  then show "\<exists>n y. record_of cc ind x = Some \<lparr>country_code = cc, country_name = n,
                 indicator = ind, year = y, val = v\<rparr>"
    by (auto simp: usable_def record_of_def split: option.splits)
qed

lemma example_source_fetch:
  "fetch_country_data example_source (Lst [''USA'', ''CHN'']) 2020 2021
      (Some [''GDP (Current US$)''])
   = Returns [\<lparr>country_code = ''USA'', country_name = Name ''United States'',
                indicator = ''GDP (Current US$)'', year = 2020, val = 21060473613000\<rparr>]"
  by (simp add: fetch_country_data_def gdp_code try_body_def except_continue_def
      example_source_def sort_values_def hashable_row_def)

text \<open>
  Witness for C6, the example of the specification: USA and CHN, GDP (Current US$), 2020 to
  2021, one point for USA in 2020, a null for CHN in 2021: exactly one record, made of the
  one observation with a value.
\<close>

theorem fetch_country_data_non_null_records_witness:
  "fetch_country_data example_source (Lst [''USA'', ''CHN'']) 2020 2021
      (Some [''GDP (Current US$)''])
     = Returns [\<lparr>country_code = ''USA'', country_name = Name ''United States'',
                  indicator = ''GDP (Current US$)'', year = 2020, val = 21060473613000\<rparr>]
   \<and> those (map hashable_row
        (concat (map (\<lambda>cc. concat (map (\<lambda>ind.
           List.map_filter (record_of cc ind)
             (takeWhile usable (observations example_source cc 2020 2021 ind)))
           [''GDP (Current US$)''])) [''USA'', ''CHN''])))
     = Some [\<lparr>country_code = ''USA'', country_name = Name ''United States'',
               indicator = ''GDP (Current US$)'', year = 2020, val = 21060473613000\<rparr>]"
  using fetch_country_data_non_null_records [OF example_source_fetch, THEN conjunct1]
    example_source_fetch
  by (simp add: code_list_def indicator_list_def observations_def gdp_code example_source_def
      usable_def record_of_def hashable_row_def)

text \<open>
  Counterexample to C6 as stated: the payload's second observation is well formed and has
  the value 7, its first entry raises: the dataset is empty, the observation has no record.
\<close>

theorem fetch_country_data_loses_later_observation:
  "observations bad_then_good_source ''USA'' 2020 2021 ''GDP (Current US$)''
     = [\<lparr>entry_value = Number 5, entry_date = None,
          entry_country = Some (Hashable (Name ''United States''))\<rparr>,
        \<lparr>entry_value = Number 7, entry_date = Some 2021,
          entry_country = Some (Hashable (Name ''United States''))\<rparr>]
   \<and> usable \<lparr>entry_value = Number 7, entry_date = Some 2021,
               entry_country = Some (Hashable (Name ''United States''))\<rparr>
   \<and> fetch_country_data bad_then_good_source (Lst [''USA'']) 2020 2021
        (Some [''GDP (Current US$)'']) = Returns []"
  by (simp add: observations_def gdp_code bad_then_good_source_def usable_def
      fetch_country_data_def try_body_def except_continue_def)

text \<open>
  C10. A country code given as a bare string is fetched as the one-element list holding it:
  both calls return the same dataset.
\<close>

theorem fetch_country_data_bare_string:
  "fetch_country_data src (Str c) start_year end_year indicators
     = fetch_country_data src (Lst [c]) start_year end_year indicators"
  by (simp add: fetch_country_data_def)

subsection \<open>Heatmaps\<close>

lemma index_of_Some: "index_of a xs = Some i \<Longrightarrow> i < length xs \<and> xs ! i = a"
  by (induction xs arbitrary: i) (auto split: if_splits option.splits)

lemma index_of_None: "index_of a xs = None \<longleftrightarrow> a \<notin> set xs"
  by (induction xs) (auto split: option.splits)

lemma create_chart_heatmap:
  assumes "selected_rows df ind countries \<noteq> []"
  shows "create_chart df ind ''heatmap'' countries =
    (case pivot_table (selected_rows df ind countries) of
       (index, columns, cells) \<Rightarrow> Heatmap ind columns index (fillna 0 cells))"
proof -
  from assms have "df \<noteq> []" "filter (\<lambda>r. indicator r = ind) df \<noteq> []"
    by (auto simp: selected_rows_def filter_empty_conv split: option.splits if_splits)
  with assms show ?thesis
    by (simp add: create_chart_def selected_rows_def Let_def split: option.splits)
qed

text \<open>
  C3, as amended. A heatmap pivots the rows of the indicator (in the selected countries) into
  a grid with one line per country name and one column per year that occur in those rows; a
  cell holds the mean of the matching values, and 0 where no row matches. A year in which no
  selected country has a row has no column: for a dataset where DEU has values only in 2019
  and 2021, the heatmap has a (DEU, 2020) cell, valued 0, when another country of the chart
  has a 2020 row, and no 2020 cell otherwise.
\<close>

theorem create_chart_heatmap_cells:
  fixes df :: dataset
  assumes "selected_rows df ind countries \<noteq> []"
  shows "heatmap_cell (create_chart df ind ''heatmap'' countries) c y =
    (if c \<in> country_name ` set (selected_rows df ind countries)
        \<and> y \<in> year ` set (selected_rows df ind countries)
     then Some (let vs = map val (filter (\<lambda>r. country_name r = c \<and> year r = y)
                                    (selected_rows df ind countries))
                in if vs = [] then 0 else mean vs)
     else None)"
proof -
  let ?d = "selected_rows df ind countries"
  let ?index = "sort (remdups (map country_name ?d))"
  let ?columns = "sort (remdups (map year ?d))"
  let ?cell = "\<lambda>c y. (let vs = map val (filter (\<lambda>r. country_name r = c \<and> year r = y) ?d)
                  in if vs = [] then None else Some (mean vs))"
  have fig: "create_chart df ind ''heatmap'' countries =
      Heatmap ind ?columns ?index (fillna 0 (map (\<lambda>c. map (?cell c) ?columns) ?index))"
    using create_chart_heatmap [OF assms] by (simp add: pivot_table_def Let_def)
  show ?thesis
  proof (cases "index_of c ?index")
    case None
    then have "c \<notin> country_name ` set ?d" by (simp add: index_of_None)
    with None fig show ?thesis by simp
  next
    case (Some i)
    then have i: "i < length ?index" "?index ! i = c" by (auto dest: index_of_Some)
    from Some have cin: "c \<in> country_name ` set ?d"
      using index_of_None [of c ?index] by auto
    show ?thesis
    proof (cases "index_of y ?columns")
      case None
      then have "y \<notin> year ` set ?d" by (simp add: index_of_None)
      with None Some fig show ?thesis by simp
    next
      case (Some j)
      then have j: "j < length ?columns" "?columns ! j = y" by (auto dest: index_of_Some)
      from Some have yin: "y \<in> year ` set ?d"
        using index_of_None [of y ?columns] by auto
      have "fillna 0 (map (\<lambda>c. map (?cell c) ?columns) ?index) ! i ! j
          = (case ?cell c y of None \<Rightarrow> 0 | Some x \<Rightarrow> x)"
        using i j by (simp add: fillna_def)
      with \<open>index_of c ?index = Some i\<close> Some fig cin yin show ?thesis
        by (simp add: Let_def)
    qed
  qed
qed

text \<open>
  Witness for C3: Germany in 2019 and 2021, France in 2020: the cell (Germany, 2020) is
  there and holds 0.
\<close>

theorem create_chart_heatmap_cells_witness:
  "selected_rows deu_fra_rows ''GDP Per Capita'' None \<noteq> []
   \<and> heatmap_cell (create_chart deu_fra_rows ''GDP Per Capita'' ''heatmap'' None) ''Germany'' 2020
       = Some 0"
  using create_chart_heatmap_cells [of deu_fra_rows "''GDP Per Capita''" None "''Germany''" 2020]
  by (simp add: selected_rows_def deu_fra_rows_def deu_rows_def)

text \<open>
  Counterexample to C3 as stated: a dataset where DEU has values only in 2019 and 2021. The
  heatmap has the columns 2019 and 2021 and no cell for 2020.
\<close>

theorem create_chart_heatmap_no_2020_column:
  "create_chart deu_rows ''GDP Per Capita'' ''heatmap'' None
     = Heatmap ''GDP Per Capita'' [2019, 2021] [''Germany''] [[46800, 51200]]
   \<and> heatmap_cell (create_chart deu_rows ''GDP Per Capita'' ''heatmap'' None) ''Germany'' 2020
       = None"
  by (simp add: create_chart_def deu_rows_def pivot_table_def fillna_def mean_def Let_def)

subsection \<open>The view state after a fetch\<close>

lemma displayed_chart_cards:
  "displayed_indicators (chart_cards df cs i inds) = filter (\<lambda>ind. ind \<in> indicator ` set df) inds"
  by (induction inds arbitrary: i) simp_all

lemma growth_code:
  "map_of ALL_INDICATORS ''GDP Growth (Annual %)'' = Some ''NY.GDP.MKTP.KD.ZG''"
  by (simp add: ALL_INDICATORS_def ECONOMIC_INDICATORS_def)

lemma example_fetch:
  "fetch_country_data example_source (Lst [''USA'']) 2020 2021
      (Some [''GDP (Current US$)'', ''GDP Growth (Annual %)''])
   = Returns [\<lparr>country_code = ''USA'', country_name = Name ''United States'',
                indicator = ''GDP (Current US$)'', year = 2020, val = 21060473613000\<rparr>]"
  by (simp add: fetch_country_data_def gdp_code growth_code try_body_def except_continue_def
      example_source_def sort_values_def hashable_row_def)

text \<open>
  C2, as amended. After a fetch with a non-empty country and indicator selection that returns
  at least one record, the view state's indicator list equals the requested indicator list,
  not narrowed to the indicators that returned data, and its country list is the requested
  one. The displayed charts are narrowed: an indicator of that list with no row in the
  dataset gets no chart card, so the cards are those of the requested indicators that have a
  row, in the requested order. When the fetch returns no record, the page shows an alert and
  the data and view-state stores are emptied.
\<close>

theorem fetch_and_display_data_view_state:
  assumes "clicked fetch_clicks" and "selected_countries \<noteq> []" and "selected_indicators \<noteq> []"
    and "fetch_country_data src (Lst selected_countries) (fst year_range) (snd year_range)
           (Some selected_indicators) = Returns df"
  shows "fetch_and_display_data src Fetch_data_btn fetch_clicks import_clicks selected_countries
           selected_indicators year_range imported_data existing_data existing_ui_state =
         Returns
           (if df = [] then
              ([Alert ''No data found. Please try different selections or upload a CSV file.''],
               [Text ''''], ''none'', Empty_dict, Empty_dict)
            else
              (chart_cards df (Some selected_countries) 0 selected_indicators,
               [Export_card], ''block'', Stored df,
               Stored \<lparr>state_source = ''api'', state_indicators = selected_indicators,
                        state_countries = selected_countries\<rparr>))
       \<and> displayed_indicators (chart_cards df (Some selected_countries) 0 selected_indicators)
           = filter (\<lambda>ind. ind \<in> indicator ` set df) selected_indicators"
  using assms
  by (simp add: fetch_and_display_data_def show_data_def create_charts_and_export_def
      displayed_chart_cards)

text \<open>
  Witness for C2: USA, two indicators, of which the source has data for the first only.
\<close>

theorem fetch_and_display_data_view_state_witness:
  "clicked (Some 1)
   \<and> fetch_and_display_data example_source Fetch_data_btn (Some 1) None [''USA'']
        [''GDP (Current US$)'', ''GDP Growth (Annual %)''] (2020, 2021) Unset Unset Unset =
      Returns
        (chart_cards
           [\<lparr>country_code = ''USA'', country_name = Name ''United States'',
              indicator = ''GDP (Current US$)'', year = 2020, val = 21060473613000\<rparr>]
           (Some [''USA'']) 0 [''GDP (Current US$)'', ''GDP Growth (Annual %)''],
         [Export_card], ''block'',
         Stored [\<lparr>country_code = ''USA'', country_name = Name ''United States'',
                   indicator = ''GDP (Current US$)'', year = 2020, val = 21060473613000\<rparr>],
         Stored \<lparr>state_source = ''api'',
                  state_indicators = [''GDP (Current US$)'', ''GDP Growth (Annual %)''],
                  state_countries = [''USA'']\<rparr>)"
  using fetch_and_display_data_view_state [of "Some 1" "[''USA'']"
      "[''GDP (Current US$)'', ''GDP Growth (Annual %)'']" example_source "(2020, 2021)" _ None
      Unset Unset Unset]
  by (simp add: example_fetch clicked_def)

text \<open>
  Counterexample to C2 as stated: the requested indicator GDP Growth (Annual %) is in the
  view state and has no row in the dataset, and the charts container holds the card of
  GDP (Current US$) alone: no placeholder chart is rendered for it.
\<close>

theorem fetch_and_display_data_omits_empty_indicator:
  "fetch_and_display_data example_source Fetch_data_btn (Some 1) None [''USA'']
      [''GDP (Current US$)'', ''GDP Growth (Annual %)''] (2020, 2021) Unset Unset Unset =
   Returns
     ([Chart_card 0 ''GDP (Current US$)''
         (Plot Line ''GDP (Current US$)''
            [\<lparr>country_code = ''USA'', country_name = Name ''United States'',
               indicator = ''GDP (Current US$)'', year = 2020, val = 21060473613000\<rparr>])],
      [Export_card], ''block'',
      Stored [\<lparr>country_code = ''USA'', country_name = Name ''United States'',
                indicator = ''GDP (Current US$)'', year = 2020, val = 21060473613000\<rparr>],
      Stored \<lparr>state_source = ''api'',
               state_indicators = [''GDP (Current US$)'', ''GDP Growth (Annual %)''],
               state_countries = [''USA'']\<rparr>)"
  by (simp add: fetch_and_display_data_def example_fetch clicked_def show_data_def
      create_charts_and_export_def create_chart_def)

subsection \<open>Clearing the page\<close>

text \<open>
  C9. Clearing is idempotent and total: a second click leaves the page as the first one left
  it, and one click sets, whatever the page was, the data store, the imported-data store and
  the view state to the empty dictionary, the chart images to the empty list and the charts
  container to an empty division, so that every callback reads them as empty and no chart is
  displayed.
\<close>

theorem clear_all_data_idempotent:
  "clear_all_data (Some m) (clear_all_data (Some n) p) = clear_all_data (Some n) p
   \<and> clear_all_data (Some n) p =
       p\<lparr>country_dropdown := [],
         indicator_dropdown := [''GDP (Current US$)'', ''GDP Growth (Annual %)''],
         data_store := Empty_dict, imported_data_store := Empty_dict,
         ui_state_store := Empty_dict, chart_images_store := [],
         charts_container := [Div []], export_section_style := ''none'',
         upload_status := [Text ''''], use_imported_btn_disabled := True\<rparr>
   \<and> \<not> truthy_rows (data_store (clear_all_data (Some n) p))
   \<and> \<not> truthy_rows (imported_data_store (clear_all_data (Some n) p))
   \<and> \<not> truthy_state (ui_state_store (clear_all_data (Some n) p))
   \<and> chart_images_store (clear_all_data (Some n) p) = []
   \<and> displayed_indicators (charts_container (clear_all_data (Some n) p)) = []"
  by (simp add: clear_all_data_def)

subsection \<open>The country directory cache\<close>

text \<open>
  The seconds component of a time difference is below 86400 whatever the difference, so
  the test of line 52 holds as soon as the cache is filled, and the cache is then returned
  at any later time without a query.
\<close>

lemma timedelta_seconds_below_day: "timedelta_seconds now stamp < 86400"
  by (simp add: timedelta_seconds_def)

lemma fetch_all_countries_never_expires:
  "countries_cache g = Some cached \<Longrightarrow> cache_timestamp g = Some stamp \<Longrightarrow>
   fetch_all_countries now later resp g = (cached, g, False)"
  by (simp add: fetch_all_countries_def timedelta_seconds_below_day)

text \<open>
  C4. The cache is meant to live 24 hours. With a cache filled at time 0 and a call 25 hours
  later (90000 seconds, in microseconds), the code returns the cached mapping and does not
  query the source, where a re-fetch would return the directory's present content.
\<close>

theorem fetch_all_countries_stale_after_25_hours:
  "fetch_all_countries 90000000000 90000000001 new_directory old_cache
     = ([(''Germany'', ''DEU'')], old_cache, False)
   \<and> refresh_countries 90000000001 new_directory old_cache
     = ([(''France'', ''FRA'')],
        \<lparr>countries_cache = Some [(''France'', ''FRA'')], cache_timestamp = Some 90000000001\<rparr>,
        True)"
  by (simp add: fetch_all_countries_def refresh_countries_def keep_countries_def
      timedelta_seconds_def old_cache_def new_directory_def Let_def)

subsection \<open>Uploads\<close>

text \<open>
  A row is dropped exactly when one of its five cells is missing or its year or value has
  no numeric reading.
\<close>

lemma import_row_None:
  "import_row r = None \<longleftrightarrow>
     r ''country_code'' = NA \<or> r ''country_name'' = NA \<or> r ''indicator'' = NA
     \<or> to_numeric (r ''year'') = None \<or> to_numeric (r ''value'') = None"
  by (auto simp: import_row_def text_of_def split: option.splits cell.splits)

text \<open>
  C5, as amended. The import path rejects the whole file (an error message and no dataset)
  when the upload cannot be decoded or read as a table, when the file name does not contain
  \<^verbatim>\<open>csv\<close>, or when one of the five required columns is missing, and in no other case.
  When a table with the five columns is accepted, rows are dropped one by one (those whose
  year or value fails numeric coercion, and those with a missing cell in one of the five
  columns) and the remaining rows, in order, form the dataset: bad rows are never fatal.
\<close>

theorem parse_uploaded_csv_rejections:
  "(fst (parse_uploaded_csv cont filename) = None \<longleftrightarrow>
      cont = Malformed_contents \<or> cont = Payload Unreadable \<or> \<not> contains ''csv'' filename
      \<or> (\<exists>df. cont = Payload (Readable df)
            \<and> \<not> list_all (\<lambda>col. col \<in> set (table_columns df)) required_cols))
   \<and> (contains ''csv'' filename
        \<and> list_all (\<lambda>col. col \<in> set (table_columns df)) required_cols
      \<longrightarrow> parse_uploaded_csv (Payload (Readable df)) filename
            = (Some (List.map_filter import_row (table_rows df)), Uploaded))
   \<and> (import_row r = None \<longleftrightarrow>
        r ''country_code'' = NA \<or> r ''country_name'' = NA \<or> r ''indicator'' = NA
        \<or> to_numeric (r ''year'') = None \<or> to_numeric (r ''value'') = None)"
proof (intro conjI impI)
  show "fst (parse_uploaded_csv cont filename) = None \<longleftrightarrow>
      cont = Malformed_contents \<or> cont = Payload Unreadable \<or> \<not> contains ''csv'' filename
      \<or> (\<exists>df. cont = Payload (Readable df)
            \<and> \<not> list_all (\<lambda>col. col \<in> set (table_columns df)) required_cols)"
    by (auto simp: parse_uploaded_csv_def split: contents.splits csv_text.splits)
next
  assume "contains ''csv'' filename
        \<and> list_all (\<lambda>col. col \<in> set (table_columns df)) required_cols"
  then show "parse_uploaded_csv (Payload (Readable df)) filename
            = (Some (List.map_filter import_row (table_rows df)), Uploaded)"
    by (simp add: parse_uploaded_csv_def)
next
  show "import_row r = None \<longleftrightarrow>
        r ''country_code'' = NA \<or> r ''country_name'' = NA \<or> r ''indicator'' = NA
        \<or> to_numeric (r ''year'') = None \<or> to_numeric (r ''value'') = None"
    by (rule import_row_None)
qed

lemma five_columns: "list_all (\<lambda>col. col \<in> set (table_columns five_column_table)) required_cols"
  by (simp add: five_column_table_def required_cols_def)

text \<open>
  Witness for C5: a table with the five columns whose second row has a year that is no
  number, uploaded as economic_data.csv: the two other rows form the dataset.
\<close>

theorem parse_uploaded_csv_rejections_witness:
  "contains ''csv'' ''economic_data.csv''
   \<and> list_all (\<lambda>col. col \<in> set (table_columns five_column_table)) required_cols
   \<and> parse_uploaded_csv (Payload (Readable five_column_table)) ''economic_data.csv''
      = (Some [\<lparr>country_code = ''USA'', country_name = ''United States'',
                 indicator = ''Population'', year = 2020, val = 331500000\<rparr>,
               \<lparr>country_code = ''USA'', country_name = ''United States'',
                 indicator = ''Population'', year = 2020, val = 331500000\<rparr>], Uploaded)"
  using parse_uploaded_csv_rejections [of _ "''economic_data.csv''" five_column_table,
      THEN conjunct2, THEN conjunct1]
  by (simp add: five_columns)
     (simp add: five_column_table_def import_row_def good_row_def bad_year_row_def
        text_of_def to_numeric_def)

text \<open>
  Counterexample to C5 as stated: the same table, with all five required columns, uploaded
  under the name data.txt, is rejected as a whole.
\<close>

theorem parse_uploaded_csv_rejects_other_name:
  "list_all (\<lambda>col. col \<in> set (table_columns five_column_table)) required_cols
   \<and> parse_uploaded_csv (Payload (Readable five_column_table)) ''data.txt''
      = (None, Not_a_csv_file)"
  by (simp add: five_columns parse_uploaded_csv_def)

subsection \<open>Export and re-import\<close>

text \<open>A written row is read back whole when its texts and numbers are plain, and dropped otherwise.\<close>

lemma import_written_row:
  assumes "plain_number number_text number_read (year r)"
    and "plain_number number_text number_read (val r)"
  shows "import_row (written_row number_text number_read r) =
     (if plain_text (country_code r) \<and> plain_text (country_name r) \<and> plain_text (indicator r)
      then Some r else None)"
  using assms
  by (simp add: import_row_def written_row_def read_back_def text_of_def to_numeric_def
      plain_text_def plain_number_def)

lemma map_filter_written_rows:
  assumes "\<forall>r\<in>set df. plain_number number_text number_read (year r)
                     \<and> plain_number number_text number_read (val r)"
  shows "List.map_filter import_row (map (written_row number_text number_read) df) =
     filter (\<lambda>r. plain_text (country_code r) \<and> plain_text (country_name r)
                  \<and> plain_text (indicator r)) df"
  using assms
proof (induction df)
  case Nil
  show ?case by (simp add: List.map_filter_simps)
next
  case (Cons r df)
  then show ?case
    by (simp add: List.map_filter_simps import_written_row)
qed

text \<open>
  C8, as amended. When a dataset is exported with \<^verbatim>\<open>export_to_csv\<close> under a name that
  contains \<^verbatim>\<open>csv\<close>, its numbers are read back as they were written and its texts are
  not read as numbers, re-importing the file through \<^verbatim>\<open>parse_uploaded_csv\<close> yields, in
  the same order, the records whose country code, country name and indicator are not texts
  that \<^verbatim>\<open>read_csv\<close> takes for a missing value (the empty text, NA, null, and the like);
  the records with such a text are dropped. The round trip gives back the same records
  exactly when the dataset has no such text.
\<close>

theorem export_import_round_trip:
  assumes "export_to_csv number_text number_read writable (Some df) filename = Some f"
    and "contains ''csv'' filename"
    and "\<forall>r\<in>set df. plain_number number_text number_read (year r)
                     \<and> plain_number number_text number_read (val r)"
    and "\<forall>r\<in>set df. read_as_text number_read (country_code r)
                     \<and> read_as_text number_read (country_name r)
                     \<and> read_as_text number_read (indicator r)"
  shows "reimport f =
     (Some (filter (\<lambda>r. plain_text (country_code r) \<and> plain_text (country_name r)
                         \<and> plain_text (indicator r)) df), Uploaded)
   \<and> (reimport f = (Some df, Uploaded) \<longleftrightarrow>
        list_all (\<lambda>r. plain_text (country_code r) \<and> plain_text (country_name r)
                       \<and> plain_text (indicator r)) df)"
proof -
  let ?keep = "\<lambda>r::string row. plain_text (country_code r) \<and> plain_text (country_name r)
                         \<and> plain_text (indicator r)"
  from assms(1) have f: "f = \<lparr>file_name = filename,
       file_table = \<lparr>table_columns =
           [''country_code'', ''country_name'', ''indicator'', ''year'', ''value''],
         table_rows = map (written_row number_text number_read) df\<rparr>\<rparr>"
    by (simp add: export_to_csv_def split: if_splits)
  have first: "reimport f = (Some (filter ?keep df), Uploaded)"
    using assms(2)
    by (simp add: f reimport_def parse_uploaded_csv_def required_cols_def
        map_filter_written_rows [OF assms(3)])
  have "filter ?keep df = df \<longleftrightarrow> list_all ?keep df"
    by (simp add: filter_id_conv list_all_iff)
  with first show ?thesis by simp
qed

text \<open>
  Witness for C8: the populations of the United States and of Namibia, the latter under the
  code NA, exported as economic_data.csv: the first record comes back, the second does not.
\<close>

theorem export_import_round_trip_witness:
  "export_to_csv example_number_text example_number_read True
       (Some [usa_population, namibia_population]) ''economic_data.csv''
     = Some \<lparr>file_name = ''economic_data.csv'',
             file_table = \<lparr>table_columns =
                 [''country_code'', ''country_name'', ''indicator'', ''year'', ''value''],
               table_rows = map (written_row example_number_text example_number_read)
                 [usa_population, namibia_population]\<rparr>\<rparr>
   \<and> contains ''csv'' ''economic_data.csv''
   \<and> plain_number example_number_text example_number_read 2020
   \<and> plain_number example_number_text example_number_read 331500000
   \<and> plain_number example_number_text example_number_read 2540000
   \<and> list_all (read_as_text example_number_read)
        [''USA'', ''United States'', ''Population'', ''NA'', ''Namibia'']
   \<and> reimport \<lparr>file_name = ''economic_data.csv'',
             file_table = \<lparr>table_columns =
                 [''country_code'', ''country_name'', ''indicator'', ''year'', ''value''],
               table_rows = map (written_row example_number_text example_number_read)
                 [usa_population, namibia_population]\<rparr>\<rparr>
     = (Some [usa_population], Uploaded)"
proof -
  have e: "export_to_csv example_number_text example_number_read True
       (Some [usa_population, namibia_population]) ''economic_data.csv''
     = Some \<lparr>file_name = ''economic_data.csv'',
             file_table = \<lparr>table_columns =
                 [''country_code'', ''country_name'', ''indicator'', ''year'', ''value''],
               table_rows = map (written_row example_number_text example_number_read)
                 [usa_population, namibia_population]\<rparr>\<rparr>"
    by (simp add: export_to_csv_def)
  have c: "contains ''csv'' ''economic_data.csv''"
    by simp
  have n: "plain_number example_number_text example_number_read 2020"
    "plain_number example_number_text example_number_read 331500000"
    "plain_number example_number_text example_number_read 2540000"
    by (simp_all add: plain_number_def example_number_text_def example_number_read_def
        NA_VALUES_def)
  have p: "\<forall>r\<in>set [usa_population, namibia_population].
      plain_number example_number_text example_number_read (year r)
      \<and> plain_number example_number_text example_number_read (val r)"
    using n by (simp add: usa_population_def namibia_population_def)
  have t: "list_all (read_as_text example_number_read)
        [''USA'', ''United States'', ''Population'', ''NA'', ''Namibia'']"
    by (simp add: read_as_text_def example_number_read_def)
  then have q: "\<forall>r\<in>set [usa_population, namibia_population].
      read_as_text example_number_read (country_code r)
      \<and> read_as_text example_number_read (country_name r)
      \<and> read_as_text example_number_read (indicator r)"
    by (simp add: usa_population_def namibia_population_def)
  show ?thesis
    using export_import_round_trip [OF e c p q, THEN conjunct1] e c n t
    by (simp add: plain_text_def NA_VALUES_def usa_population_def namibia_population_def)
qed

text \<open>
  Counterexample to C8 as stated: the dataset holding Namibia's population under the country
  code NA is exported, and the re-import yields no record: \<^verbatim>\<open>read_csv\<close> reads the code as
  missing and line 309 drops the row.
\<close>

theorem export_import_drops_NA_code:
  "export_to_csv example_number_text example_number_read True (Some [namibia_population])
       ''economic_data.csv''
     = Some \<lparr>file_name = ''economic_data.csv'',
             file_table = \<lparr>table_columns =
                 [''country_code'', ''country_name'', ''indicator'', ''year'', ''value''],
               table_rows = [written_row example_number_text example_number_read
                               namibia_population]\<rparr>\<rparr>
   \<and> reimport \<lparr>file_name = ''economic_data.csv'',
             file_table = \<lparr>table_columns =
                 [''country_code'', ''country_name'', ''indicator'', ''year'', ''value''],
               table_rows = [written_row example_number_text example_number_read
                               namibia_population]\<rparr>\<rparr>
     = (Some [], Uploaded)"
  by (simp add: export_to_csv_def reimport_def parse_uploaded_csv_def required_cols_def
      import_row_def written_row_def read_back_def text_of_def to_numeric_def
      namibia_population_def NA_VALUES_def example_number_text_def example_number_read_def)

end
